theory Spec2Isabelle
  imports Complex_Main
begin

section \<open>Level table (levelConfig.ts)\<close>

text \<open>
  JavaScript numbers are modelled as follows: counters that the program only ever
  increments, decrements and compares (score, lives, level, star coins, pipes passed,
  pipe count) are \<open>int\<close>; positions, speeds and angles are \<open>real\<close>. Arithmetic
  on them is therefore exact: the rounding of IEEE-754 doubles is not modelled.
\<close>

record LevelConfig =
  gameSpeed :: real
  gapHeight :: real
  pipeSpacing :: real
  pipeCount :: int
  color :: string
  trapChance :: real

definition levels :: "LevelConfig list" where
  "levels =
    [ \<lparr>gameSpeed = 3.2, gapHeight = 4.5, pipeSpacing = 10, pipeCount = 10,
        color = ''#4CAF50'', trapChance = 0.1\<rparr>,
      \<lparr>gameSpeed = 3.4, gapHeight = 4.3, pipeSpacing = 9.8, pipeCount = 12,
        color = ''#8BC34A'', trapChance = 0.12\<rparr>,
      \<lparr>gameSpeed = 3.6, gapHeight = 4.1, pipeSpacing = 9.6, pipeCount = 14,
        color = ''#CDDC39'', trapChance = 0.15\<rparr>,
      \<lparr>gameSpeed = 3.8, gapHeight = 3.9, pipeSpacing = 9.4, pipeCount = 16,
        color = ''#FFEB3B'', trapChance = 0.18\<rparr>,
      \<lparr>gameSpeed = 4.0, gapHeight = 3.7, pipeSpacing = 9.2, pipeCount = 18,
        color = ''#FFC107'', trapChance = 0.22\<rparr>,
      \<lparr>gameSpeed = 4.2, gapHeight = 3.5, pipeSpacing = 9.0, pipeCount = 20,
        color = ''#FF9800'', trapChance = 0.26\<rparr>,
      \<lparr>gameSpeed = 4.4, gapHeight = 3.4, pipeSpacing = 8.8, pipeCount = 22,
        color = ''#F44336'', trapChance = 0.30\<rparr>,
      \<lparr>gameSpeed = 4.6, gapHeight = 3.3, pipeSpacing = 8.6, pipeCount = 24,
        color = ''#E91E63'', trapChance = 0.35\<rparr>,
      \<lparr>gameSpeed = 4.8, gapHeight = 3.2, pipeSpacing = 8.4, pipeCount = 26,
        color = ''#9C27B0'', trapChance = 0.40\<rparr>,
      \<lparr>gameSpeed = 5.0, gapHeight = 3.1, pipeSpacing = 8.2, pipeCount = 30,
        color = ''#3F51B5'', trapChance = 0.45\<rparr> ]"

definition MAX_LEVELS :: int where
  "MAX_LEVELS = int (length levels)"

text \<open>
  \<^verbatim>\<open>levels[Math.min(level - 1, levels.length - 1)]\<close>: an index below 0 reads
  \<^verbatim>\<open>undefined\<close> from the array, which is \<open>None\<close> here.
\<close>

definition getLevelConfig :: "int \<Rightarrow> LevelConfig option" where
  "getLevelConfig lvl =
    (let i = min (lvl - 1) (int (length levels) - 1)
     in if 0 \<le> i \<and> i < int (length levels) then Some (levels ! nat i) else None)"


section \<open>Session state and its handlers (App component)\<close>

datatype GameState =
  CameraSetup | Ready | Playing | Paused | PausedCameraSetup
  | GameOver | LevelComplete | Victory

record session =
  gameState :: GameState
  score :: int
  level :: int
  lives :: int
  starCoins :: int
  pipesPassed :: int

datatype error = TypeError

text \<open>
  Every \<^verbatim>\<open>useState\<close> cell is a field of \<open>session\<close>. A setter call enqueues an
  update on its cell, and the updates of a cell are applied in the order in which they
  were enqueued. An updater function passed to a setter runs either when the component
  is rendered next, or already at dispatch when no update is pending on the component.
  A setter called from inside an updater is enqueued when that updater runs: in the
  first case after the update the updater belongs to, in the second case before it.
  The two orders differ only where both updates write an absolute value to the same
  cell; that is so in \<^verbatim>\<open>handleCrash\<close> alone, which takes the case as a parameter.
\<close>

definition initialSession :: session where
  "initialSession =
    \<lparr>gameState = CameraSetup, score = 0, level = 1, lives = 5, starCoins = 0,
     pipesPassed = 0\<rparr>"

definition startGame :: "int \<Rightarrow> session \<Rightarrow> session" where
  "startGame startLevel s =
    s\<lparr>score := 0, lives := 5, level := startLevel, starCoins := 0, pipesPassed := 0,
      gameState := Ready\<rparr>"

definition handleConfirmCamera :: "session \<Rightarrow> session" where
  "handleConfirmCamera s = startGame 1 s"

definition handleRestartFromBeginning :: "session \<Rightarrow> session" where
  "handleRestartFromBeginning s = s\<lparr>gameState := CameraSetup\<rparr>"

definition handleRestartLevel :: "session \<Rightarrow> session" where
  "handleRestartLevel s = startGame (level s) s"

text \<open>
  \<^verbatim>\<open>config.pipeCount\<close> on an undefined \<^verbatim>\<open>config\<close> throws a TypeError.
\<close>

definition handlePipePass :: "session \<Rightarrow> error + session" where
  "handlePipePass s =
    (let s1 = s\<lparr>score := score s + 1\<rparr>;
         newPipesPassed = pipesPassed s1 + 1
     in case getLevelConfig (level s) of
          None \<Rightarrow> Inl TypeError
        | Some config \<Rightarrow>
            (let s2 = s1\<lparr>pipesPassed := newPipesPassed\<rparr>
             in if pipeCount config > 0 \<and> newPipesPassed \<ge> pipeCount config
                then Inr (s2\<lparr>gameState := LevelComplete\<rparr>)
                else Inr s2))"

definition handleCoinCollect :: "session \<Rightarrow> session" where
  "handleCoinCollect s =
    (let s1 = s\<lparr>score := score s + 5\<rparr>;
         newStarCoins = starCoins s1 + 1
     in if newStarCoins \<ge> 25
        then s1\<lparr>starCoins := newStarCoins - 25, lives := lives s1 + 1\<rparr>
        else s1\<lparr>starCoins := newStarCoins\<rparr>)"

definition handleTrapHit :: "session \<Rightarrow> session" where
  "handleTrapHit s = s\<lparr>score := max 0 (score s - 3)\<rparr>"

text \<open>
  \<^verbatim>\<open>handleCrash\<close>: \<open>atDispatch\<close> says that the \<^verbatim>\<open>setLives\<close> updater is run at
  dispatch. Then the \<^verbatim>\<open>setLives(3)\<close> of the demotion branch is enqueued before the
  updater's own result \<open>newLives\<close>, which is applied last; otherwise it follows it.
\<close>

definition handleCrash :: "bool \<Rightarrow> session \<Rightarrow> session" where
  "handleCrash atDispatch s =
    (let newLives = lives s - 1
     in if newLives > 0
        then s\<lparr>lives := newLives, pipesPassed := 0, gameState := Ready\<rparr>
        else if level s > 1
        then (if atDispatch
              then s\<lparr>level := level s - 1, lives := 3, pipesPassed := 0,
                     gameState := Ready, lives := newLives\<rparr>
              else s\<lparr>lives := newLives, level := level s - 1, lives := 3,
                     pipesPassed := 0, gameState := Ready\<rparr>)
        else s\<lparr>lives := newLives, gameState := GameOver\<rparr>)"

definition handleNextLevel :: "session \<Rightarrow> session" where
  "handleNextLevel s =
    (if level s \<ge> MAX_LEVELS
     then s\<lparr>gameState := Victory\<rparr>
     else s\<lparr>lives := lives s + 1, level := level s + 1, pipesPassed := 0,
            gameState := Ready\<rparr>)"

definition handlePauseToggle :: "session \<Rightarrow> session" where
  "handlePauseToggle s =
    (if gameState s = Playing then s\<lparr>gameState := Paused\<rparr>
     else if gameState s = Paused then s\<lparr>gameState := Playing\<rparr>
     else s)"

text \<open>The events that the scene reports to the session while a level is played.\<close>

datatype scoring = PipePass | CoinCollect | TrapHit

fun scoringStep :: "scoring \<Rightarrow> session \<Rightarrow> error + session" where
  "scoringStep PipePass s = handlePipePass s"
| "scoringStep CoinCollect s = Inr (handleCoinCollect s)"
| "scoringStep TrapHit s = Inr (handleTrapHit s)"

fun scoringRun :: "scoring list \<Rightarrow> session \<Rightarrow> error + session" where
  "scoringRun [] s = Inr s"
| "scoringRun (e # es) s =
    (case scoringStep e s of Inl err \<Rightarrow> Inl err | Inr s' \<Rightarrow> scoringRun es s')"


section \<open>Obstacle segments (PipeSystem component)\<close>

text \<open>
  A segment keeps the fields of \<^verbatim>\<open>PipeSegment\<close> together with the coordinates of
  its meshes that the component writes: the z position of the group, the y positions
  of the two pipes, of the coin and of the warning indicator, the coin's rotation and
  visibility.
\<close>

record PipeSegment =
  posZ :: real
  pipeTopY :: real
  pipeBottomY :: real
  coinY :: real
  coinRotY :: real
  coinVisible :: bool
  indicatorY :: real
  indicatorZ :: real
  isTrap :: bool
  passed :: bool
  coinCollected :: bool

definition PIPE_BODY_HEIGHT :: real where
  "PIPE_BODY_HEIGHT = 20"

definition INDICATOR_AHEAD_DISTANCE :: real where
  "INDICATOR_AHEAD_DISTANCE = 5"


text \<open>\<open>rnd\<close> is again the value drawn by \<^verbatim>\<open>Math.random()\<close>.\<close>

definition resetPipe :: "LevelConfig \<Rightarrow> real \<Rightarrow> PipeSegment \<Rightarrow> real \<Rightarrow> PipeSegment" where
  "resetPipe config rnd segment zPos =
    (let lo = - 2 + gapHeight config / 2;
         hi = 6 - gapHeight config / 2;
         gapCenterY = lo + rnd * (hi - lo)
     in segment\<lparr>posZ := zPos, passed := False, coinCollected := False,
          coinVisible := True,
          pipeTopY := gapCenterY + gapHeight config / 2 + PIPE_BODY_HEIGHT / 2,
          pipeBottomY := gapCenterY - gapHeight config / 2 - PIPE_BODY_HEIGHT / 2,
          coinY := gapCenterY, indicatorY := gapCenterY,
          indicatorZ := INDICATOR_AHEAD_DISTANCE\<rparr>)"

text \<open>
  The layout effect: every segment is reset to its slot behind the start offset. It
  runs whenever the segments, the configuration or the game mode change (every mode
  change: a new attempt or level, and also a pause or a resume). \<open>rnd i\<close> is the
  random draw for segment \<open>i\<close>.
\<close>

fun layoutFrom :: "LevelConfig \<Rightarrow> (nat \<Rightarrow> real) \<Rightarrow> nat \<Rightarrow> PipeSegment list \<Rightarrow> PipeSegment list"
  where
  "layoutFrom config rnd i [] = []"
| "layoutFrom config rnd i (segment # rest) =
    resetPipe config (rnd i) segment
        (- (real i * pipeSpacing config) - gameSpeed config * 4)
      # layoutFrom config rnd (Suc i) rest"

definition layoutPipes :: "LevelConfig \<Rightarrow> (nat \<Rightarrow> real) \<Rightarrow> PipeSegment list \<Rightarrow> PipeSegment list"
  where
  "layoutPipes config rnd segs = layoutFrom config rnd 0 segs"

text \<open>
  The effect's dependencies are the segments, the configuration, the game mode and
  \<^verbatim>\<open>resetPipe\<close>. Within one level the first, second and last stay the same, so the
  effect runs exactly when the game mode of the new render differs from the old one.
\<close>

definition layoutEffect ::
  "LevelConfig \<Rightarrow> (nat \<Rightarrow> real) \<Rightarrow> GameState \<Rightarrow> GameState \<Rightarrow> PipeSegment list \<Rightarrow>
   PipeSegment list" where
  "layoutEffect config rnd gsOld gsNew segs =
    (if gsOld \<noteq> gsNew then layoutPipes config rnd segs else segs)"

text \<open>
  The body of the \<^verbatim>\<open>forEach\<close> in \<^verbatim>\<open>movePipes\<close> for one segment; the flag says
  whether \<^verbatim>\<open>onPipePass\<close> was called.
\<close>

definition moveSegment :: "LevelConfig \<Rightarrow> real \<Rightarrow> PipeSegment \<Rightarrow> PipeSegment \<times> bool" where
  "moveSegment config delta segment =
    (let s1 = segment\<lparr>posZ := posZ segment + gameSpeed config * delta,
                      coinRotY := coinRotY segment + 2 * delta\<rparr>
     in if \<not> passed s1 \<and> posZ s1 > 0 then (s1\<lparr>passed := True\<rparr>, True) else (s1, False))"

text \<open>\<^verbatim>\<open>movePipes\<close> returns the moved segments and the number of \<^verbatim>\<open>onPipePass\<close> calls.\<close>

fun movePipes :: "LevelConfig \<Rightarrow> real \<Rightarrow> PipeSegment list \<Rightarrow> PipeSegment list \<times> nat" where
  "movePipes config delta [] = ([], 0)"
| "movePipes config delta (segment # rest) =
    (let (segment', fired) = moveSegment config delta segment;
         (rest', n) = movePipes config delta rest
     in (segment' # rest', (if fired then 1 else 0) + n))"

text \<open>
  The life of one segment: ticks of \<^verbatim>\<open>movePipes\<close> with their time step, and resets
  with their position and random draw. The run counts the pass events of the segment.
\<close>

datatype segmentOp = Tick real | Reset real real

fun segmentRun :: "LevelConfig \<Rightarrow> segmentOp list \<Rightarrow> PipeSegment \<Rightarrow> PipeSegment \<times> nat" where
  "segmentRun config [] segment = (segment, 0)"
| "segmentRun config (Tick delta # ops) segment =
    (let (segment', fired) = moveSegment config delta segment;
         (final, n) = segmentRun config ops segment'
     in (final, (if fired then 1 else 0) + n))"
| "segmentRun config (Reset zPos rnd # ops) segment =
    segmentRun config ops (resetPipe config rnd segment zPos)"





text \<open>The number of resets in the life of a segment.\<close>

fun resets :: "segmentOp list \<Rightarrow> nat" where
  "resets [] = 0"
| "resets (Tick delta # ops) = resets ops"
| "resets (Reset zPos rnd # ops) = Suc (resets ops)"


section \<open>Craft physics and crash handling (Scene component)\<close>

definition JUMP_FORCE :: real where
  "JUMP_FORCE = 7"

definition GRAVITY :: real where
  "GRAVITY = - 15"

definition UFO_RADIUS :: real where
  "UFO_RADIUS = 0.8"

text \<open>
  The scene state: the craft's height, velocity and visibility, the number of crash
  timeouts that are scheduled and have not fired yet, and the segments of the pipe
  system. The craft's x and z coordinates stay 0. The \<^verbatim>\<open>useState\<close> cell of the
  component appears twice: \<open>isCrashing\<close> is the constant that the callbacks of the last
  render captured, which is what \<^verbatim>\<open>handleImmediateCrash\<close> and the frame callback
  test; \<open>isCrashingCell\<close> is the value that \<^verbatim>\<open>setIsCrashing\<close> wrote last. A render
  of the component copies the cell into the constant.
\<close>

record scene =
  ufoY :: real
  ufoVelocity :: real
  ufoVisible :: bool
  isCrashing :: bool
  isCrashingCell :: bool
  crashTimers :: nat
  segments :: "PipeSegment list"

definition ufoZ :: real where
  "ufoZ = 0"

definition initialScene :: "PipeSegment list \<Rightarrow> scene" where
  "initialScene segs =
    \<lparr>ufoY = 0, ufoVelocity = 0, ufoVisible = True, isCrashing = False,
     isCrashingCell = False, crashTimers = 0, segments = segs\<rparr>"

definition render :: "scene \<Rightarrow> scene" where
  "render sc = sc\<lparr>isCrashing := isCrashingCell sc\<rparr>"

text \<open>
  \<^verbatim>\<open>handleImmediateCrash\<close>: the particle bursts are presentation only; the timeout it
  schedules is counted in \<open>crashTimers\<close>. The guard tests the constant of the last
  render, and \<^verbatim>\<open>setIsCrashing(true)\<close> writes the cell.
\<close>

definition handleImmediateCrash :: "scene \<Rightarrow> scene" where
  "handleImmediateCrash sc =
    (if isCrashing sc then sc
     else sc\<lparr>isCrashingCell := True, ufoVisible := False,
            crashTimers := crashTimers sc + 1\<rparr>)"

text \<open>
  The timeout callback: \<^verbatim>\<open>onCrash()\<close> reaches the session, then the cell is cleared.
  It can only run for a timeout that was scheduled. \<open>atDispatch\<close> is passed on to
  \<open>handleCrash\<close>.
\<close>

definition crashTimeout :: "bool \<Rightarrow> session \<times> scene \<Rightarrow> session \<times> scene" where
  "crashTimeout atDispatch p =
    (case p of (ss, sc) \<Rightarrow>
      if crashTimers sc > 0
      then (handleCrash atDispatch ss,
            sc\<lparr>isCrashingCell := False, crashTimers := crashTimers sc - 1\<rparr>)
      else (ss, sc))"

definition resetUFO :: "scene \<Rightarrow> scene" where
  "resetUFO sc = sc\<lparr>ufoY := 2, ufoVisible := True, ufoVelocity := 0\<rparr>"

text \<open>The function stored in \<^verbatim>\<open>flapRef\<close> (its sound is presentation only).\<close>

definition flap :: "scene \<Rightarrow> scene" where
  "flap sc = sc\<lparr>ufoVelocity := JUMP_FORCE\<rparr>"

text \<open>
  \<^verbatim>\<open>handleInput\<close> of the App component for a single tap or key press: ignored in the
  two camera set-up modes; \<open>Ready\<close> starts play; \<open>Ready\<close> and \<open>Playing\<close> flap.
\<close>

definition handleInput :: "session \<times> scene \<Rightarrow> session \<times> scene" where
  "handleInput p =
    (case p of (ss, sc) \<Rightarrow>
      if gameState ss = CameraSetup \<or> gameState ss = PausedCameraSetup then (ss, sc)
      else (if gameState ss = Ready then ss\<lparr>gameState := Playing\<rparr> else ss,
            if gameState ss = Ready \<or> gameState ss = Playing then flap sc else sc))"

text \<open>
  The collision loop of the frame callback. The two intersection tests are those of the
  rendering library on the meshes' bounding volumes; they are parameters here:
  \<open>hitsPipe y segment\<close> says that the craft's sphere at height \<open>y\<close> meets one of the
  two pipe boxes of the segment, \<open>hitsCoin y segment\<close> that it meets the coin's sphere.
  The result is the segments, the events reported to the session in order, and whether
  a crash was detected (which ends the loop).
\<close>

fun checkSegments ::
  "(real \<Rightarrow> PipeSegment \<Rightarrow> bool) \<Rightarrow> (real \<Rightarrow> PipeSegment \<Rightarrow> bool) \<Rightarrow> real \<Rightarrow>
   PipeSegment list \<Rightarrow> PipeSegment list \<times> scoring list \<times> bool" where
  "checkSegments hitsPipe hitsCoin y [] = ([], [], False)"
| "checkSegments hitsPipe hitsCoin y (segment # rest) =
    (if \<bar>posZ segment - ufoZ\<bar> < UFO_RADIUS + 1.2
     then if hitsPipe y segment then (segment # rest, [], True)
          else if coinVisible segment \<and> hitsCoin y segment
          then (case checkSegments hitsPipe hitsCoin y rest of
                  (rest', evs, crashed) \<Rightarrow>
                    (segment\<lparr>coinVisible := False\<rparr> # rest',
                     (if isTrap segment then TrapHit else CoinCollect) # evs, crashed))
          else (case checkSegments hitsPipe hitsCoin y rest of
                  (rest', evs, crashed) \<Rightarrow> (segment # rest', evs, crashed))
     else (case checkSegments hitsPipe hitsCoin y rest of
             (rest', evs, crashed) \<Rightarrow> (segment # rest', evs, crashed)))"

text \<open>
  The frame callback of the scene, for the mode \<open>gs\<close> and configuration of the current
  render, time step \<open>delta\<close> and clock reading \<open>elapsedTime\<close>. It returns the scene
  and the events reported to the session.
\<close>

definition useFrame ::
  "(real \<Rightarrow> PipeSegment \<Rightarrow> bool) \<Rightarrow> (real \<Rightarrow> PipeSegment \<Rightarrow> bool) \<Rightarrow> GameState \<Rightarrow>
   LevelConfig \<Rightarrow> real \<Rightarrow> real \<Rightarrow> scene \<Rightarrow> scene \<times> scoring list" where
  "useFrame hitsPipe hitsCoin gs config delta elapsedTime sc =
    (if isCrashing sc then (sc, [])
     else if gs = Playing
     then (let v = ufoVelocity sc + GRAVITY * delta;
               y = ufoY sc + v * delta
           in case movePipes config delta (segments sc) of
                (segs, n) \<Rightarrow>
                  (let sc1 = sc\<lparr>ufoVelocity := v, ufoY := y, segments := segs\<rparr>;
                       passes = replicate n PipePass
                   in if y < - 5 \<or> y > 10 then (handleImmediateCrash sc1, passes)
                      else (case checkSegments hitsPipe hitsCoin y segs of
                              (segs', evs, crashed) \<Rightarrow>
                                (let sc2 = sc1\<lparr>segments := segs'\<rparr>
                                 in (if crashed then handleImmediateCrash sc2 else sc2,
                                     passes @ evs)))))
     else if gs = Ready \<or> gs = CameraSetup
     then (sc\<lparr>ufoY := 2 + sin (elapsedTime * 2) * 0.1\<rparr>, [])
     else (sc, []))"

text \<open>
  What can happen to the scene: a frame, the crash timeout firing, a flap, the reset of
  the craft when the session enters \<open>Ready\<close>, and a render of the component.
\<close>

datatype sceneEvent =
  Frame GameState LevelConfig real real | Timeout | FlapInput | ResetCraft | Render

fun sceneStep ::
  "(real \<Rightarrow> PipeSegment \<Rightarrow> bool) \<Rightarrow> (real \<Rightarrow> PipeSegment \<Rightarrow> bool) \<Rightarrow> sceneEvent \<Rightarrow>
   scene \<Rightarrow> scene" where
  "sceneStep hitsPipe hitsCoin (Frame gs config delta elapsedTime) sc =
    fst (useFrame hitsPipe hitsCoin gs config delta elapsedTime sc)"
| "sceneStep hitsPipe hitsCoin Timeout sc =
    (if crashTimers sc > 0
     then sc\<lparr>isCrashingCell := False, crashTimers := crashTimers sc - 1\<rparr>
     else sc)"
| "sceneStep hitsPipe hitsCoin FlapInput sc = flap sc"
| "sceneStep hitsPipe hitsCoin ResetCraft sc = resetUFO sc"
| "sceneStep hitsPipe hitsCoin Render sc = render sc"

fun sceneRun ::
  "(real \<Rightarrow> PipeSegment \<Rightarrow> bool) \<Rightarrow> (real \<Rightarrow> PipeSegment \<Rightarrow> bool) \<Rightarrow> sceneEvent list \<Rightarrow>
   scene \<Rightarrow> scene" where
  "sceneRun hitsPipe hitsCoin [] sc = sc"
| "sceneRun hitsPipe hitsCoin (ev # evs) sc =
    sceneRun hitsPipe hitsCoin evs (sceneStep hitsPipe hitsCoin ev sc)"


fun isFrame :: "sceneEvent \<Rightarrow> bool" where
  "isFrame (Frame gs config delta elapsedTime) = True"
| "isFrame ev = False"


section \<open>Camera rig (DynamicCamera component)\<close>

record vec3 =
  vx :: real
  vy :: real
  vz :: real

text \<open>
  The vector operations of the rendering library that the camera uses:
  \<^verbatim>\<open>a.lerp(b, alpha)\<close> adds \<^verbatim>\<open>(b - a) * alpha\<close> to each coordinate of \<^verbatim>\<open>a\<close>, and
  \<^verbatim>\<open>setFromSpherical\<close> converts radius, polar angle \<open>phi\<close> and azimuth \<open>theta\<close>
  to Cartesian coordinates with the y axis up.
\<close>

definition lerp :: "vec3 \<Rightarrow> vec3 \<Rightarrow> real \<Rightarrow> vec3" where
  "lerp a b alpha =
    \<lparr>vx = vx a + (vx b - vx a) * alpha, vy = vy a + (vy b - vy a) * alpha,
     vz = vz a + (vz b - vz a) * alpha\<rparr>"

definition setFromSpherical :: "real \<Rightarrow> real \<Rightarrow> real \<Rightarrow> vec3" where
  "setFromSpherical radius phi theta =
    \<lparr>vx = sin phi * radius * sin theta, vy = cos phi * radius,
     vz = sin phi * radius * cos theta\<rparr>"

definition add :: "vec3 \<Rightarrow> vec3 \<Rightarrow> vec3" where
  "add a b = \<lparr>vx = vx a + vx b, vy = vy a + vy b, vz = vz a + vz b\<rparr>"

definition distanceSquared :: "vec3 \<Rightarrow> vec3 \<Rightarrow> real" where
  "distanceSquared a b = (vx a - vx b)\<^sup>2 + (vy a - vy b)\<^sup>2 + (vz a - vz b)\<^sup>2"

record cameraRotation =
  azimuth :: real
  polar :: real

record camera =
  camPosition :: vec3
  lookAtTarget :: "vec3 option"
  fov :: real

definition DEFAULT_FOV :: real where
  "DEFAULT_FOV = 75"

definition startPosition :: vec3 where
  "startPosition = \<lparr>vx = 0, vy = 2, vz = 0\<rparr>"

definition lookAtPosition :: "GameState \<Rightarrow> vec3 \<Rightarrow> vec3" where
  "lookAtPosition gs ufoPosition =
    (if gs = CameraSetup \<or> gs = Ready then startPosition else ufoPosition)"

definition targetPosition :: "GameState \<Rightarrow> real \<Rightarrow> cameraRotation \<Rightarrow> vec3 \<Rightarrow> vec3" where
  "targetPosition gs zoomLevel rot ufoPosition =
    add (setFromSpherical (7 * zoomLevel) (polar rot) (azimuth rot))
        (lookAtPosition gs ufoPosition)"

definition lerpFactor :: "GameState \<Rightarrow> real" where
  "lerpFactor gs = (if gs = CameraSetup \<or> gs = PausedCameraSetup then 1 else 0.1)"

text \<open>The frame callback of the camera; \<open>ufoPosition\<close> is the craft's current position.\<close>

definition cameraFrame ::
  "GameState \<Rightarrow> real \<Rightarrow> cameraRotation \<Rightarrow> vec3 \<Rightarrow> camera \<Rightarrow> camera" where
  "cameraFrame gs zoomLevel rot ufoPosition cam =
    (let isInitialStatic = (gs = CameraSetup \<or> gs = Ready);
         isPausedStatic = (gs = Paused \<or> gs = PausedCameraSetup)
     in if gs \<noteq> Playing \<and> \<not> isInitialStatic \<and> \<not> isPausedStatic then cam
        else cam\<lparr>camPosition :=
                   lerp (camPosition cam) (targetPosition gs zoomLevel rot ufoPosition)
                     (lerpFactor gs),
                 lookAtTarget :=
                   Some (lerp (case lookAtTarget cam of
                                 None \<Rightarrow> \<lparr>vx = 0, vy = 0, vz = 0\<rparr>
                               | Some t \<Rightarrow> t)
                           (lookAtPosition gs ufoPosition) (lerpFactor gs)),
                 fov := DEFAULT_FOV\<rparr>)"

text \<open>
  The effect that runs when the mode, the rotation or the zoom change: in the \<open>Ready\<close>
  and \<open>CameraSetup\<close> modes it places the camera on its target without interpolation.
\<close>

definition cameraEffect :: "GameState \<Rightarrow> real \<Rightarrow> cameraRotation \<Rightarrow> camera \<Rightarrow> camera" where
  "cameraEffect gs zoomLevel rot cam =
    (if gs = Ready \<or> gs = CameraSetup
     then cam\<lparr>camPosition :=
                add (setFromSpherical (7 * zoomLevel) (polar rot) (azimuth rot)) startPosition,
              lookAtTarget := Some startPosition\<rparr>
     else cam)"


section \<open>Properties of the level table\<close>

lemma length_levels: "length levels = 10"
  by (simp add: levels_def)

lemma MAX_LEVELS_eq: "MAX_LEVELS = 10"
  by (simp add: MAX_LEVELS_def length_levels)

lemma getLevelConfig_in_table:
  assumes "1 \<le> L" and "L \<le> MAX_LEVELS"
  shows "getLevelConfig L = Some (levels ! nat (L - 1))"
proof -
  from assms have "min (L - 1) (int (length levels) - 1) = L - 1"
    by (simp add: MAX_LEVELS_def)
  with assms show ?thesis
    by (simp add: getLevelConfig_def MAX_LEVELS_def)
qed

lemma getLevelConfig_beyond:
  assumes "MAX_LEVELS \<le> L"
  shows "getLevelConfig L = Some (last levels)"
proof -
  from assms have "min (L - 1) (int (length levels) - 1) = int (length levels) - 1"
    by (simp add: MAX_LEVELS_def)
  moreover have "levels ! nat (int (length levels) - 1) = last levels"
    by (simp add: length_levels last_conv_nth levels_def)
  ultimately show ?thesis
    by (simp add: getLevelConfig_def length_levels)
qed

text \<open>
  Claim C3. For every level number \<open>L\<close> with \<open>1 \<le> L \<le> MAX_LEVELS\<close>,
  \<open>getLevelConfig L\<close> is exactly the \<open>L\<close>-th entry of the table (1-based); for every
  \<open>L\<close> beyond the table it is the last entry, so \<open>getLevelConfig (MAX_LEVELS + 5)\<close>
  equals \<open>getLevelConfig MAX_LEVELS\<close>.
\<close>

theorem getLevelConfig_clamped:
  "(1 \<le> L \<and> L \<le> MAX_LEVELS \<longrightarrow> getLevelConfig L = Some (levels ! nat (L - 1)))
   \<and> (MAX_LEVELS < L \<longrightarrow> getLevelConfig L = Some (last levels)
        \<and> getLevelConfig L = getLevelConfig MAX_LEVELS)
   \<and> getLevelConfig (MAX_LEVELS + 5) = getLevelConfig MAX_LEVELS"
  using getLevelConfig_in_table [of L] getLevelConfig_beyond [of L]
    getLevelConfig_beyond [of MAX_LEVELS] getLevelConfig_beyond [of "MAX_LEVELS + 5"]
  by simp

theorem getLevelConfig_clamped_witness:
  "getLevelConfig 3 =
     Some \<lparr>gameSpeed = 3.6, gapHeight = 4.1, pipeSpacing = 9.6, pipeCount = 14,
           color = ''#CDDC39'', trapChance = 0.15\<rparr>
   \<and> getLevelConfig 12 =
     Some \<lparr>gameSpeed = 5.0, gapHeight = 3.1, pipeSpacing = 8.2, pipeCount = 30,
           color = ''#3F51B5'', trapChance = 0.45\<rparr>
   \<and> getLevelConfig 12 = getLevelConfig 10
   \<and> getLevelConfig 15 = getLevelConfig 10"
proof -
  have t: "getLevelConfig 12 = Some (last levels) \<and> getLevelConfig 12 = getLevelConfig 10
      \<and> getLevelConfig 15 = getLevelConfig 10"
    using getLevelConfig_clamped [of 12] unfolding MAX_LEVELS_eq by auto
  have a: "getLevelConfig 3 = Some (levels ! nat (3 - 1))"
    using getLevelConfig_clamped [of 3] unfolding MAX_LEVELS_eq by auto
  have b: "getLevelConfig 12 = Some (last levels)"
    using t by blast
  have c: "getLevelConfig 10 = getLevelConfig 12"
    using t by metis
  have d: "getLevelConfig 15 = getLevelConfig 10"
    using t by blast
  show ?thesis
    unfolding d c unfolding a b by (simp add: levels_def)
qed


section \<open>Properties of the session handlers\<close>

lemma handleCrash_lives_left:
  assumes "lives s > 1"
  shows "handleCrash atDispatch s
         = s\<lparr>lives := lives s - 1, pipesPassed := 0, gameState := Ready\<rparr>"
  using assms by (simp add: handleCrash_def Let_def)

lemma handleCrash_game_over:
  assumes "lives s \<le> 1" and "level s \<le> 1"
  shows "handleCrash atDispatch s = s\<lparr>lives := lives s - 1, gameState := GameOver\<rparr>"
  using assms by (simp add: handleCrash_def Let_def)

lemma handleCrash_demotion:
  assumes "lives s \<le> 1" and "level s > 1"
  shows "level (handleCrash atDispatch s) = level s - 1
         \<and> gameState (handleCrash atDispatch s) = Ready
         \<and> pipesPassed (handleCrash atDispatch s) = 0
         \<and> lives (handleCrash atDispatch s) = (if atDispatch then lives s - 1 else 3)"
  using assms by (simp add: handleCrash_def Let_def)

text \<open>
  Claim C1. On a crash with \<open>lives > 1\<close> a life is lost, \<open>pipesPassed\<close> is reset and
  the mode becomes \<open>Ready\<close>; the last life lost on level 1 gives \<open>GameOver\<close>; the last
  life lost on a level above 1 demotes: \<open>Ready\<close>, one level lower, with 3 lives. The
  first two cases and the demoted level hold in the code (lemmas above). The 3 lives
  hold only when the \<^verbatim>\<open>setLives\<close> updater runs in the next render. When it is run at
  dispatch, \<open>lives = 1, level = 5\<close> ends on level 4 in \<open>Ready\<close> with 0 lives, against
  the claim and against the source's own comment on \<^verbatim>\<open>setLives(3)\<close>.
\<close>

theorem handleCrash_demotion_lives:
  "handleCrash True \<lparr>gameState = Playing, score = 17, level = 5, lives = 1, starCoins = 4,
                      pipesPassed = 6\<rparr>
     = \<lparr>gameState = Ready, score = 17, level = 4, lives = 0, starCoins = 4,
        pipesPassed = 0\<rparr>
   \<and> handleCrash False \<lparr>gameState = Playing, score = 17, level = 5, lives = 1,
                      starCoins = 4, pipesPassed = 6\<rparr>
     = \<lparr>gameState = Ready, score = 17, level = 4, lives = 3, starCoins = 4,
        pipesPassed = 0\<rparr>"
  by (simp add: handleCrash_def)

text \<open>
  Claim C2. A bonus collect adds 5 to the score and 1 to the star-coin tally; when the
  tally reaches 25 one life is added and 25 is subtracted from the tally (the tally is
  neither left at 25 nor set to a constant). From a tally of 24 one collect gives a
  tally of 0 and one more life.
\<close>

theorem handleCoinCollect_wraps:
  "score (handleCoinCollect s) = score s + 5
   \<and> (starCoins s + 1 < 25 \<longrightarrow>
        starCoins (handleCoinCollect s) = starCoins s + 1
        \<and> lives (handleCoinCollect s) = lives s)
   \<and> (starCoins s + 1 \<ge> 25 \<longrightarrow>
        starCoins (handleCoinCollect s) = starCoins s + 1 - 25
        \<and> lives (handleCoinCollect s) = lives s + 1)
   \<and> (starCoins s = 24 \<longrightarrow>
        starCoins (handleCoinCollect s) = 0 \<and> lives (handleCoinCollect s) = lives s + 1)"
  by (simp add: handleCoinCollect_def Let_def)

theorem handleCoinCollect_wraps_witness:
  "handleCoinCollect \<lparr>gameState = Playing, score = 40, level = 2, lives = 3,
                       starCoins = 24, pipesPassed = 5\<rparr>
     = \<lparr>gameState = Playing, score = 45, level = 2, lives = 4, starCoins = 0,
        pipesPassed = 5\<rparr>
   \<and> starCoins (handleCoinCollect \<lparr>gameState = Playing, score = 40, level = 2,
                       lives = 3, starCoins = 7, pipesPassed = 5\<rparr>) = 8"
  using handleCoinCollect_wraps [of "\<lparr>gameState = Playing, score = 40, level = 2,
      lives = 3, starCoins = 24, pipesPassed = 5\<rparr>"]
    handleCoinCollect_wraps [of "\<lparr>gameState = Playing, score = 40, level = 2,
      lives = 3, starCoins = 7, pipesPassed = 5\<rparr>"]
  by (simp add: handleCoinCollect_def)

text \<open>
  Claim C5. The next-level confirmation enters \<open>Ready\<close> with level and lives each
  incremented by one when the current level is below \<open>MAX_LEVELS\<close>; at or above
  \<open>MAX_LEVELS\<close> it enters \<open>Victory\<close> instead and changes nothing else.
\<close>

theorem handleNextLevel_cases:
  "(level s < MAX_LEVELS \<longrightarrow>
      gameState (handleNextLevel s) = Ready \<and> level (handleNextLevel s) = level s + 1
      \<and> lives (handleNextLevel s) = lives s + 1)
   \<and> (level s \<ge> MAX_LEVELS \<longrightarrow> handleNextLevel s = s\<lparr>gameState := Victory\<rparr>)"
  by (simp add: handleNextLevel_def)

theorem handleNextLevel_cases_witness:
  "handleNextLevel \<lparr>gameState = LevelComplete, score = 12, level = 2, lives = 4,
                     starCoins = 3, pipesPassed = 12\<rparr>
     = \<lparr>gameState = Ready, score = 12, level = 3, lives = 5, starCoins = 3,
        pipesPassed = 0\<rparr>
   \<and> handleNextLevel \<lparr>gameState = LevelComplete, score = 230, level = 10, lives = 4,
                     starCoins = 3, pipesPassed = 30\<rparr>
     = \<lparr>gameState = Victory, score = 230, level = 10, lives = 4, starCoins = 3,
        pipesPassed = 30\<rparr>"
  using handleNextLevel_cases [of "\<lparr>gameState = LevelComplete, score = 12, level = 2,
      lives = 4, starCoins = 3, pipesPassed = 12\<rparr>"]
    handleNextLevel_cases [of "\<lparr>gameState = LevelComplete, score = 230, level = 10,
      lives = 4, starCoins = 3, pipesPassed = 30\<rparr>"]
  by (simp add: handleNextLevel_def MAX_LEVELS_eq)

text \<open>
  Claim C10. The retry-level action (offered in the \<open>GameOver\<close> and \<open>Victory\<close>
  modes) enters \<open>Ready\<close> on the same level with score 0, 5 lives, an empty star-coin
  tally and no pipes passed: the accumulated score is discarded and the lives are the
  5 of a fresh start, not the 3 of a demotion.
\<close>

theorem handleRestartLevel_fresh:
  "handleRestartLevel s =
     \<lparr>gameState = Ready, score = 0, level = level s, lives = 5, starCoins = 0,
      pipesPassed = 0\<rparr>"
  by (simp add: handleRestartLevel_def startGame_def)

theorem handleRestartLevel_fresh_witness:
  "handleRestartLevel \<lparr>gameState = GameOver, score = 57, level = 1, lives = 0,
                        starCoins = 9, pipesPassed = 3\<rparr>
     = \<lparr>gameState = Ready, score = 0, level = 1, lives = 5, starCoins = 0,
        pipesPassed = 0\<rparr>
   \<and> handleRestartLevel \<lparr>gameState = Victory, score = 230, level = 10, lives = 2,
                        starCoins = 9, pipesPassed = 30\<rparr>
     = \<lparr>gameState = Ready, score = 0, level = 10, lives = 5, starCoins = 0,
        pipesPassed = 0\<rparr>"
  using handleRestartLevel_fresh [of "\<lparr>gameState = GameOver, score = 57, level = 1,
      lives = 0, starCoins = 9, pipesPassed = 3\<rparr>"]
    handleRestartLevel_fresh [of "\<lparr>gameState = Victory, score = 230, level = 10,
      lives = 2, starCoins = 9, pipesPassed = 30\<rparr>"]
  by simp

lemma getLevelConfig_defined:
  assumes "1 \<le> L"
  shows "\<exists>config. getLevelConfig L = Some config"
proof (cases "L \<le> MAX_LEVELS")
  case True
  with assms show ?thesis using getLevelConfig_in_table by blast
next
  case False
  then show ?thesis using getLevelConfig_beyond [of L] by simp
qed

lemma handleTrapHit_score: "score (handleTrapHit s) = max 0 (score s - 3)"
  by (simp add: handleTrapHit_def)

lemma handleTrapHit_level: "level (handleTrapHit s) = level s"
  by (simp add: handleTrapHit_def)

lemma handleCoinCollect_score: "score (handleCoinCollect s) = score s + 5"
  by (simp add: handleCoinCollect_def Let_def)

lemma handleCoinCollect_level: "level (handleCoinCollect s) = level s"
  by (simp add: handleCoinCollect_def Let_def)

lemma handlePipePass_Inr:
  assumes "handlePipePass s = Inr s'"
  shows "score s' = score s + 1 \<and> level s' = level s"
  using assms by (auto simp: handlePipePass_def Let_def split: option.splits if_splits)

lemma handlePipePass_total:
  assumes "1 \<le> level s"
  shows "\<exists>s'. handlePipePass s = Inr s'"
proof -
  from assms obtain config where "getLevelConfig (level s) = Some config"
    using getLevelConfig_defined by blast
  then show ?thesis
    by (simp add: handlePipePass_def Let_def)
qed

lemma scoringStep_invariant:
  assumes "0 \<le> score s" and "1 \<le> level s"
  shows "\<exists>s'. scoringStep e s = Inr s' \<and> 0 \<le> score s' \<and> 1 \<le> level s'"
proof (cases e)
  case PipePass
  from assms(2) obtain s' where s': "handlePipePass s = Inr s'"
    using handlePipePass_total by blast
  with handlePipePass_Inr [OF s'] assms PipePass show ?thesis by simp
next
  case CoinCollect
  with assms show ?thesis by (simp add: handleCoinCollect_score handleCoinCollect_level)
next
  case TrapHit
  with assms show ?thesis by (simp add: handleTrapHit_score handleTrapHit_level)
qed

lemma scoringRun_invariant:
  assumes "0 \<le> score s" and "1 \<le> level s"
  shows "\<exists>s'. scoringRun evs s = Inr s' \<and> 0 \<le> score s' \<and> 1 \<le> level s'"
  using assms
proof (induction evs arbitrary: s)
  case Nil
  then show ?case by simp
next
  case (Cons e evs)
  from scoringStep_invariant [OF Cons.prems, of e]
  obtain s1 where s1: "scoringStep e s = Inr s1" "0 \<le> score s1" "1 \<le> level s1"
    by blast
  from Cons.IH [OF s1(2) s1(3)] s1(1) show ?case by simp
qed

lemma trapHits_floor:
  assumes "0 \<le> score s"
  shows "\<exists>s'. scoringRun (replicate n TrapHit) s = Inr s' \<and> 0 \<le> score s'"
  using assms
proof (induction n arbitrary: s)
  case 0
  then show ?case by simp
next
  case (Suc n)
  have "0 \<le> score (handleTrapHit s)" by (simp add: handleTrapHit_score)
  from Suc.IH [OF this] show ?case by simp
qed

text \<open>
  Claim C4. A hazard collect sets the score to \<open>max 0 (score - 3)\<close>. From score 0 any
  number of hazard collects leaves the score at or above 0, and \<open>0 \<le> score\<close> is
  preserved by each scoring operation (pipe pass, bonus collect, hazard collect), hence
  by every sequence of them, which on a valid level always runs to completion.
\<close>

theorem score_never_negative:
  "score (handleTrapHit s) = max 0 (score s - 3)
   \<and> 0 \<le> score (handleTrapHit s)
   \<and> (score s = 0 \<longrightarrow>
        (\<exists>s'. scoringRun (replicate n TrapHit) s = Inr s' \<and> 0 \<le> score s'))
   \<and> (0 \<le> score s \<longrightarrow>
        0 \<le> score (handleCoinCollect s)
        \<and> (\<forall>s'. handlePipePass s = Inr s' \<longrightarrow> 0 \<le> score s'))
   \<and> (0 \<le> score s \<and> 1 \<le> level s \<longrightarrow>
        (\<exists>s'. scoringRun evs s = Inr s' \<and> 0 \<le> score s'))"
proof -
  have a: "score s = 0 \<longrightarrow>
      (\<exists>s'. scoringRun (replicate n TrapHit) s = Inr s' \<and> 0 \<le> score s')"
    using trapHits_floor [of s n] by simp
  have b: "0 \<le> score s \<longrightarrow> (\<forall>s'. handlePipePass s = Inr s' \<longrightarrow> 0 \<le> score s')"
    using handlePipePass_Inr [of s] by fastforce
  have c: "0 \<le> score s \<and> 1 \<le> level s \<longrightarrow>
      (\<exists>s'. scoringRun evs s = Inr s' \<and> 0 \<le> score s')"
    using scoringRun_invariant [of s evs] by blast
  from a b c show ?thesis
    by (simp add: handleTrapHit_score handleCoinCollect_score)
qed

theorem score_never_negative_witness:
  "score (handleTrapHit \<lparr>gameState = Playing, score = 2, level = 1, lives = 5,
                          starCoins = 0, pipesPassed = 2\<rparr>) = 0
   \<and> (\<exists>s'. scoringRun (replicate 4 TrapHit) initialSession = Inr s' \<and> 0 \<le> score s')
   \<and> (\<exists>s'. scoringRun [TrapHit, PipePass, TrapHit, CoinCollect, TrapHit, TrapHit, TrapHit]
          initialSession = Inr s' \<and> 0 \<le> score s')"
proof -
  have i: "score initialSession = 0 \<and> 0 \<le> score initialSession \<and> 1 \<le> level initialSession"
    by (simp add: initialSession_def)
  show ?thesis
    using i score_never_negative [of "\<lparr>gameState = Playing, score = 2, level = 1, lives = 5,
          starCoins = 0, pipesPassed = 2\<rparr>" 0 "[]"]
      score_never_negative [of initialSession 4
        "[TrapHit, PipePass, TrapHit, CoinCollect, TrapHit, TrapHit, TrapHit]"]
    by simp
qed


section \<open>Properties of the craft\<close>

lemma flap_velocity: "ufoVelocity (flap sc) = 7"
  by (simp add: flap_def JUMP_FORCE_def)

lemma flap_flap: "flap (flap sc) = flap sc"
  by (simp add: flap_def)

lemma flap_funpow: "(flap ^^ Suc n) sc = flap sc"
  by (induction n) (simp_all add: flap_flap)

lemma sceneRun_flaps:
  "sceneRun hitsPipe hitsCoin (replicate (Suc n) FlapInput) sc = flap sc"
proof (induction n arbitrary: sc)
  case 0
  show ?case by simp
next
  case (Suc n)
  have "sceneRun hitsPipe hitsCoin (replicate (Suc (Suc n)) FlapInput) sc
      = sceneRun hitsPipe hitsCoin (replicate (Suc n) FlapInput) (flap sc)"
    by simp
  also have "\<dots> = flap (flap sc)" by (rule Suc.IH)
  finally show ?case by (simp add: flap_flap)
qed

text \<open>
  Claim C6. A flap sets the craft's vertical velocity to the jump impulse
  \<open>JUMP_FORCE = 7\<close> whatever the velocity was; flapping is idempotent, so any
  positive number of consecutive flaps with no frame in between leaves the velocity at 7.
  A tap or key press in the \<open>Ready\<close> and \<open>Playing\<close> modes is such a flap.
\<close>

theorem flap_sets_jump_impulse:
  "JUMP_FORCE = 7
   \<and> ufoVelocity (flap sc) = JUMP_FORCE
   \<and> (flap ^^ Suc n) sc = flap sc
   \<and> ufoVelocity ((flap ^^ Suc n) sc) = 7
   \<and> ufoVelocity (sceneRun hitsPipe hitsCoin (replicate (Suc n) FlapInput) sc) = 7
   \<and> (gameState ss = Ready \<or> gameState ss = Playing \<longrightarrow>
        ufoVelocity (snd (handleInput (ss, sc))) = 7)"
  unfolding flap_funpow sceneRun_flaps
  by (simp add: flap_velocity JUMP_FORCE_def handleInput_def)

theorem flap_sets_jump_impulse_witness:
  "ufoVelocity (flap \<lparr>ufoY = 3, ufoVelocity = - 4, ufoVisible = True, isCrashing = False, isCrashingCell = False,
                      crashTimers = 0, segments = []\<rparr>) = 7
   \<and> ufoVelocity ((flap ^^ Suc 2) \<lparr>ufoY = 3, ufoVelocity = - 4, ufoVisible = True,
                      isCrashing = False, isCrashingCell = False, crashTimers = 0, segments = []\<rparr>) = 7
   \<and> ufoVelocity (snd (handleInput
        (\<lparr>gameState = Playing, score = 0, level = 1, lives = 5, starCoins = 0,
          pipesPassed = 0\<rparr>,
         \<lparr>ufoY = 3, ufoVelocity = - 4, ufoVisible = True, isCrashing = False, isCrashingCell = False,
          crashTimers = 0, segments = []\<rparr>))) = 7"
proof -
  let ?sc = "\<lparr>ufoY = 3, ufoVelocity = - 4, ufoVisible = True, isCrashing = False, isCrashingCell = False,
      crashTimers = 0, segments = []\<rparr>"
  let ?ss = "\<lparr>gameState = Playing, score = 0, level = 1, lives = 5, starCoins = 0,
      pipesPassed = 0\<rparr>"
  have g: "gameState ?ss = Ready \<or> gameState ?ss = Playing"
    by simp
  from g flap_sets_jump_impulse [of ?sc 2 "\<lambda>y segment. False" "\<lambda>y segment. False" ?ss]
  show ?thesis
    by metis
qed


section \<open>Properties of the obstacle segments\<close>

lemma moveSegment_fired:
  "snd (moveSegment config delta segment)
     = (\<not> passed segment \<and> posZ segment + gameSpeed config * delta > 0)"
  by (simp add: moveSegment_def Let_def)

lemma moveSegment_passed:
  "passed (fst (moveSegment config delta segment))
     = (passed segment \<or> posZ segment + gameSpeed config * delta > 0)"
  by (auto simp: moveSegment_def Let_def)

lemma moveSegment_posZ:
  "posZ (fst (moveSegment config delta segment)) = posZ segment + gameSpeed config * delta"
  by (simp add: moveSegment_def Let_def)

lemma resetPipe_passed: "\<not> passed (resetPipe config rnd segment zPos)"
  by (simp add: resetPipe_def Let_def)

lemma segmentRun_Tick:
  "segmentRun config (Tick delta # ops) segment =
    (fst (segmentRun config ops (fst (moveSegment config delta segment))),
     (if snd (moveSegment config delta segment) then 1 else 0)
       + snd (segmentRun config ops (fst (moveSegment config delta segment))))"
  by (simp add: case_prod_beta Let_def)

lemma segmentRun_ticks_passed:
  assumes "passed segment"
  shows "snd (segmentRun config (map Tick deltas) segment) = 0
         \<and> passed (fst (segmentRun config (map Tick deltas) segment))"
  using assms
proof (induction deltas arbitrary: segment)
  case Nil
  then show ?case by simp
next
  case (Cons d ds)
  have p: "passed (fst (moveSegment config d segment))"
    using Cons.prems by (simp add: moveSegment_passed)
  have f: "\<not> snd (moveSegment config d segment)"
    using Cons.prems by (simp add: moveSegment_fired)
  from Cons.IH [OF p] f show ?case
    by (simp only: list.map segmentRun_Tick fst_conv snd_conv) simp
qed

lemma segmentRun_ticks_once:
  "snd (segmentRun config (map Tick deltas) segment) \<le> 1"
proof (induction deltas arbitrary: segment)
  case Nil
  show ?case by simp
next
  case (Cons d ds)
  show ?case
  proof (cases "snd (moveSegment config d segment)")
    case True
    then have "passed (fst (moveSegment config d segment))"
      by (simp add: moveSegment_fired moveSegment_passed)
    from segmentRun_ticks_passed [OF this, of config ds] True show ?thesis
      by (simp only: list.map segmentRun_Tick fst_conv snd_conv) simp
  next
    case False
    with Cons.IH [of "fst (moveSegment config d segment)"] show ?thesis
      by (simp only: list.map segmentRun_Tick fst_conv snd_conv) simp
  qed
qed

lemma segmentRun_bound:
  "snd (segmentRun config ops segment) \<le> (if passed segment then 0 else 1) + resets ops"
proof (induction ops arbitrary: segment)
  case Nil
  show ?case by simp
next
  case (Cons op ops)
  show ?case
  proof (cases op)
    case (Tick d)
    let ?m = "moveSegment config d segment"
    have "snd (segmentRun config (op # ops) segment)
        = (if snd ?m then 1 else 0) + snd (segmentRun config ops (fst ?m))"
      unfolding Tick segmentRun_Tick by simp
    also have "\<dots> \<le> (if snd ?m then 1 else 0) + ((if passed (fst ?m) then 0 else 1) + resets ops)"
      using Cons.IH [of "fst ?m"] by simp
    also have "\<dots> \<le> (if passed segment then 0 else 1) + resets ops"
      by (auto simp: moveSegment_fired moveSegment_passed)
    finally show ?thesis by (simp add: Tick)
  next
    case (Reset z r)
    from Cons.IH [of "resetPipe config r segment z"] show ?thesis
      by (simp add: Reset resetPipe_passed)
  qed
qed

lemma movePipes_map:
  "movePipes config delta segs =
     (map (\<lambda>segment. fst (moveSegment config delta segment)) segs,
      length (filter (\<lambda>segment. snd (moveSegment config delta segment)) segs))"
  by (induction segs) (simp_all add: case_prod_beta Let_def)

lemma layoutFrom_unpassed:
  "list_all (\<lambda>segment. \<not> passed segment) (layoutFrom config rnd i segs)"
  by (induction segs arbitrary: i) (simp_all add: resetPipe_passed)

lemma layoutEffect_unpassed:
  assumes "gsOld \<noteq> gsNew"
  shows "list_all (\<lambda>segment. \<not> passed segment) (layoutEffect config rnd gsOld gsNew segs)"
  using assms by (simp add: layoutEffect_def layoutPipes_def layoutFrom_unpassed)



section \<open>Properties of the crash guard\<close>

lemma handleImmediateCrash_guard: "isCrashing sc \<Longrightarrow> handleImmediateCrash sc = sc"
  by (simp add: handleImmediateCrash_def)

lemma useFrame_guard:
  "isCrashing sc \<Longrightarrow> useFrame hitsPipe hitsCoin gs config delta elapsedTime sc = (sc, [])"
  by (simp add: useFrame_def)

lemma sceneRun_frames_suspended:
  assumes "isCrashing sc" and "list_all isFrame evs"
  shows "sceneRun hitsPipe hitsCoin evs sc = sc"
  using assms
proof (induction evs)
  case Nil
  show ?case by simp
next
  case (Cons ev evs)
  from Cons.prems(2) obtain gs config delta elapsedTime
    where ev: "ev = Frame gs config delta elapsedTime"
    by (cases ev) simp_all
  from Cons show ?case
    by (simp add: ev useFrame_guard)
qed

text \<open>
  Claim C9. While a crash is being processed, a second crash trigger is a no-op and the
  frame callback is suspended until the timeout has delivered the crash. The code
  guards both with \<^verbatim>\<open>isCrashing\<close>, and once the component has been rendered with the
  new value the guards hold (lemmas above). The guards test the constant of the last
  render, though, not the cell that \<^verbatim>\<open>setIsCrashing(true)\<close> wrote: a frame that runs
  before the render moves the craft again, triggers a second crash and schedules a
  second timeout, and the session then loses two lives for one crash. With a render
  between the two frames there is one timeout.
\<close>

theorem crash_reentered_before_render:
  "sceneRun (\<lambda>y segment. False) (\<lambda>y segment. False)
      [Frame Playing (levels ! 0) 0.02 1, Frame Playing (levels ! 0) 0.02 1.02]
      \<lparr>ufoY = - 4.9, ufoVelocity = - 9, ufoVisible = True, isCrashing = False,
       isCrashingCell = False, crashTimers = 0, segments = []\<rparr>
     = \<lparr>ufoY = - 5.278, ufoVelocity = - 9.6, ufoVisible = False, isCrashing = False,
        isCrashingCell = True, crashTimers = 2, segments = []\<rparr>
   \<and> sceneRun (\<lambda>y segment. False) (\<lambda>y segment. False)
      [Frame Playing (levels ! 0) 0.02 1, Render, Frame Playing (levels ! 0) 0.02 1.02]
      \<lparr>ufoY = - 4.9, ufoVelocity = - 9, ufoVisible = True, isCrashing = False,
       isCrashingCell = False, crashTimers = 0, segments = []\<rparr>
     = \<lparr>ufoY = - 5.086, ufoVelocity = - 9.3, ufoVisible = False, isCrashing = True,
        isCrashingCell = True, crashTimers = 1, segments = []\<rparr>
   \<and> fst (crashTimeout False (crashTimeout False
        (\<lparr>gameState = Playing, score = 3, level = 2, lives = 5, starCoins = 0,
          pipesPassed = 4\<rparr>,
         \<lparr>ufoY = - 5.278, ufoVelocity = - 9.6, ufoVisible = False, isCrashing = False,
          isCrashingCell = True, crashTimers = 2, segments = []\<rparr>)))
     = \<lparr>gameState = Ready, score = 3, level = 2, lives = 3, starCoins = 0,
        pipesPassed = 0\<rparr>"
  by (simp add: useFrame_def GRAVITY_def handleImmediateCrash_def render_def
      crashTimeout_def handleCrash_def)


section \<open>Properties of the camera\<close>

lemma lerp_one: "lerp a b 1 = b"
  by (cases b) (simp add: lerp_def)

lemma lerp_gap:
  "vx b - vx (lerp a b alpha) = (1 - alpha) * (vx b - vx a)
   \<and> vy b - vy (lerp a b alpha) = (1 - alpha) * (vy b - vy a)
   \<and> vz b - vz (lerp a b alpha) = (1 - alpha) * (vz b - vz a)"
  by (simp add: lerp_def algebra_simps)

lemma lerp_distance:
  "distanceSquared (lerp a b alpha) b = (1 - alpha)\<^sup>2 * distanceSquared a b"
proof -
  have "distanceSquared (lerp a b alpha) b
      = (vx b - vx (lerp a b alpha))\<^sup>2 + (vy b - vy (lerp a b alpha))\<^sup>2
        + (vz b - vz (lerp a b alpha))\<^sup>2"
    by (simp add: distanceSquared_def power2_commute)
  also have "\<dots> = ((1 - alpha) * (vx b - vx a))\<^sup>2 + ((1 - alpha) * (vy b - vy a))\<^sup>2
        + ((1 - alpha) * (vz b - vz a))\<^sup>2"
    by (simp only: lerp_gap)
  also have "\<dots> = (1 - alpha)\<^sup>2 * distanceSquared b a"
    by (simp add: distanceSquared_def power_mult_distrib distrib_left)
  also have "distanceSquared b a = distanceSquared a b"
    by (simp add: distanceSquared_def power2_commute)
  finally show ?thesis .
qed

lemma distanceSquared_zero: "distanceSquared a b = 0 \<longleftrightarrow> a = b"
proof
  assume "distanceSquared a b = 0"
  then have "vx a = vx b \<and> vy a = vy b \<and> vz a = vz b"
    by (simp add: distanceSquared_def sum_power2_eq_zero_iff add_nonneg_eq_0_iff)
  then show "a = b" by (cases a, cases b) simp
next
  assume "a = b"
  then show "distanceSquared a b = 0" by (simp add: distanceSquared_def)
qed

lemma spherical_norm:
  fixes s c s' c' r :: real
  shows "(s * r * s')\<^sup>2 + (c * r)\<^sup>2 + (s * r * c')\<^sup>2
         = r\<^sup>2 * (s\<^sup>2 * (s'\<^sup>2 + c'\<^sup>2) + c\<^sup>2)"
  by (simp add: power_mult_distrib algebra_simps)

lemma on_sphere:
  "distanceSquared (add (setFromSpherical radius phi theta) c) c = radius\<^sup>2"
proof -
  have "distanceSquared (add (setFromSpherical radius phi theta) c) c
      = (sin phi * radius * sin theta)\<^sup>2 + (cos phi * radius)\<^sup>2
        + (sin phi * radius * cos theta)\<^sup>2"
    by (simp add: distanceSquared_def add_def setFromSpherical_def)
  also have "\<dots> = radius\<^sup>2 * ((sin phi)\<^sup>2 * ((sin theta)\<^sup>2 + (cos theta)\<^sup>2) + (cos phi)\<^sup>2)"
    by (rule spherical_norm)
  also have "\<dots> = radius\<^sup>2"
    by simp
  finally show ?thesis .
qed

lemma cameraFrame_position:
  assumes "gs \<in> {CameraSetup, PausedCameraSetup, Playing, Paused, Ready}"
  shows "camPosition (cameraFrame gs zoomLevel rot ufoPosition cam)
         = lerp (camPosition cam) (targetPosition gs zoomLevel rot ufoPosition) (lerpFactor gs)"
  using assms by (auto simp: cameraFrame_def)

lemma lerp_partial:
  assumes "a \<noteq> b"
  shows "lerp a b 0.1 \<noteq> b \<and> lerp a b 0.1 \<noteq> a"
proof -
  from assms have pos: "distanceSquared a b > 0"
    using distanceSquared_zero [of a b]
    by (simp add: distanceSquared_def less_le)
  have d: "distanceSquared (lerp a b 0.1) b = 0.81 * distanceSquared a b"
    using lerp_distance [of a b "0.1"] by (simp add: power2_eq_square)
  from pos d have "distanceSquared (lerp a b 0.1) b \<noteq> 0" by simp
  then have 1: "lerp a b 0.1 \<noteq> b" using distanceSquared_zero by blast
  from pos d have "distanceSquared (lerp a b 0.1) b \<noteq> distanceSquared a b" by simp
  then have 2: "lerp a b 0.1 \<noteq> a" by auto
  from 1 2 show ?thesis by simp
qed

lemma targetPosition_coordinates:
  "targetPosition gs zoomLevel rot ufoPosition
     = \<lparr>vx = sin (polar rot) * (7 * zoomLevel) * sin (azimuth rot)
              + vx (lookAtPosition gs ufoPosition),
        vy = cos (polar rot) * (7 * zoomLevel) + vy (lookAtPosition gs ufoPosition),
        vz = sin (polar rot) * (7 * zoomLevel) * cos (azimuth rot)
              + vz (lookAtPosition gs ufoPosition)\<rparr>"
  by (simp add: targetPosition_def setFromSpherical_def add_def)

lemma lookAtPosition_cases:
  "lookAtPosition gs ufoPosition
     = (if gs = CameraSetup \<or> gs = Ready then \<lparr>vx = 0, vy = 2, vz = 0\<rparr> else ufoPosition)"
  by (simp add: lookAtPosition_def startPosition_def)

text \<open>
  Claim C8. In the \<open>CameraSetup\<close> and \<open>PausedCameraSetup\<close> modes the interpolation
  factor is 1: after one frame the camera is exactly (in exact arithmetic) at the
  spherical coordinates given by polar angle, azimuth and radius \<open>7 * zoomLevel\<close>
  around the look-at point, which is the start point \<open>(0, 2, 0)\<close> in \<open>CameraSetup\<close> and
  the craft in \<open>PausedCameraSetup\<close>. In the \<open>Playing\<close>, \<open>Paused\<close> and \<open>Ready\<close>
  modes the factor is the constant 0.1: one frame moves the camera a tenth of the way to
  the target, so a gap that was not zero shrinks and stays not zero.
\<close>

theorem camera_snaps_or_eases:
  "lerpFactor CameraSetup = 1 \<and> lerpFactor PausedCameraSetup = 1
   \<and> lerpFactor Playing = 0.1 \<and> lerpFactor Paused = 0.1 \<and> lerpFactor Ready = 0.1
   \<and> camPosition (cameraFrame CameraSetup zoomLevel rot ufoPosition cam)
       = \<lparr>vx = sin (polar rot) * (7 * zoomLevel) * sin (azimuth rot),
          vy = cos (polar rot) * (7 * zoomLevel) + 2,
          vz = sin (polar rot) * (7 * zoomLevel) * cos (azimuth rot)\<rparr>
   \<and> camPosition (cameraFrame PausedCameraSetup zoomLevel rot ufoPosition cam)
       = \<lparr>vx = sin (polar rot) * (7 * zoomLevel) * sin (azimuth rot) + vx ufoPosition,
          vy = cos (polar rot) * (7 * zoomLevel) + vy ufoPosition,
          vz = sin (polar rot) * (7 * zoomLevel) * cos (azimuth rot) + vz ufoPosition\<rparr>
   \<and> targetPosition gs zoomLevel rot ufoPosition
       = \<lparr>vx = sin (polar rot) * (7 * zoomLevel) * sin (azimuth rot)
                + vx (if gs = CameraSetup \<or> gs = Ready then \<lparr>vx = 0, vy = 2, vz = 0\<rparr>
                      else ufoPosition),
          vy = cos (polar rot) * (7 * zoomLevel)
                + vy (if gs = CameraSetup \<or> gs = Ready then \<lparr>vx = 0, vy = 2, vz = 0\<rparr>
                      else ufoPosition),
          vz = sin (polar rot) * (7 * zoomLevel) * cos (azimuth rot)
                + vz (if gs = CameraSetup \<or> gs = Ready then \<lparr>vx = 0, vy = 2, vz = 0\<rparr>
                      else ufoPosition)\<rparr>
   \<and> (gs = CameraSetup \<or> gs = PausedCameraSetup \<longrightarrow>
      lerpFactor gs = 1
      \<and> camPosition (cameraFrame gs zoomLevel rot ufoPosition cam)
          = targetPosition gs zoomLevel rot ufoPosition
      \<and> distanceSquared (camPosition (cameraFrame gs zoomLevel rot ufoPosition cam))
          (lookAtPosition gs ufoPosition) = (7 * zoomLevel)\<^sup>2)
   \<and> (gs = Playing \<or> gs = Paused \<or> gs = Ready \<longrightarrow>
      lerpFactor gs = 0.1
      \<and> camPosition (cameraFrame gs zoomLevel rot ufoPosition cam)
          = lerp (camPosition cam) (targetPosition gs zoomLevel rot ufoPosition) 0.1
      \<and> camPosition (cameraFrame gs zoomLevel rot ufoPosition cam)
          = \<lparr>vx = vx (camPosition cam)
                   + (vx (targetPosition gs zoomLevel rot ufoPosition)
                      - vx (camPosition cam)) * 0.1,
             vy = vy (camPosition cam)
                   + (vy (targetPosition gs zoomLevel rot ufoPosition)
                      - vy (camPosition cam)) * 0.1,
             vz = vz (camPosition cam)
                   + (vz (targetPosition gs zoomLevel rot ufoPosition)
                      - vz (camPosition cam)) * 0.1\<rparr>
      \<and> distanceSquared (camPosition (cameraFrame gs zoomLevel rot ufoPosition cam))
          (targetPosition gs zoomLevel rot ufoPosition)
          = 0.81 * distanceSquared (camPosition cam)
              (targetPosition gs zoomLevel rot ufoPosition)
      \<and> (camPosition cam \<noteq> targetPosition gs zoomLevel rot ufoPosition \<longrightarrow>
           camPosition (cameraFrame gs zoomLevel rot ufoPosition cam)
             \<noteq> targetPosition gs zoomLevel rot ufoPosition
           \<and> camPosition (cameraFrame gs zoomLevel rot ufoPosition cam)
             \<noteq> camPosition cam))"
proof -
  let ?t = "targetPosition gs zoomLevel rot ufoPosition"
  let ?p' = "camPosition (cameraFrame gs zoomLevel rot ufoPosition cam)"
  have factors: "lerpFactor CameraSetup = 1 \<and> lerpFactor PausedCameraSetup = 1
      \<and> lerpFactor Playing = 0.1 \<and> lerpFactor Paused = 0.1 \<and> lerpFactor Ready = 0.1"
    by (simp add: lerpFactor_def)
  have atStart: "camPosition (cameraFrame CameraSetup zoomLevel rot ufoPosition cam)
      = \<lparr>vx = sin (polar rot) * (7 * zoomLevel) * sin (azimuth rot),
         vy = cos (polar rot) * (7 * zoomLevel) + 2,
         vz = sin (polar rot) * (7 * zoomLevel) * cos (azimuth rot)\<rparr>"
    by (simp add: cameraFrame_position factors lerp_one targetPosition_coordinates
        lookAtPosition_cases)
  have paused: "camPosition (cameraFrame PausedCameraSetup zoomLevel rot ufoPosition cam)
      = \<lparr>vx = sin (polar rot) * (7 * zoomLevel) * sin (azimuth rot) + vx ufoPosition,
         vy = cos (polar rot) * (7 * zoomLevel) + vy ufoPosition,
         vz = sin (polar rot) * (7 * zoomLevel) * cos (azimuth rot) + vz ufoPosition\<rparr>"
    by (simp add: cameraFrame_position factors lerp_one targetPosition_coordinates
        lookAtPosition_cases)
  have target: "?t
      = \<lparr>vx = sin (polar rot) * (7 * zoomLevel) * sin (azimuth rot)
               + vx (if gs = CameraSetup \<or> gs = Ready then \<lparr>vx = 0, vy = 2, vz = 0\<rparr>
                     else ufoPosition),
         vy = cos (polar rot) * (7 * zoomLevel)
               + vy (if gs = CameraSetup \<or> gs = Ready then \<lparr>vx = 0, vy = 2, vz = 0\<rparr>
                     else ufoPosition),
         vz = sin (polar rot) * (7 * zoomLevel) * cos (azimuth rot)
               + vz (if gs = CameraSetup \<or> gs = Ready then \<lparr>vx = 0, vy = 2, vz = 0\<rparr>
                     else ufoPosition)\<rparr>"
    unfolding targetPosition_coordinates lookAtPosition_cases ..
  have snap: "lerpFactor gs = 1 \<and> ?p' = ?t
      \<and> distanceSquared ?p' (lookAtPosition gs ufoPosition) = (7 * zoomLevel)\<^sup>2"
    if "gs = CameraSetup \<or> gs = PausedCameraSetup"
  proof -
    from that have f: "lerpFactor gs = 1" by (auto simp: lerpFactor_def)
    from that have "?p' = lerp (camPosition cam) ?t (lerpFactor gs)"
      by (intro cameraFrame_position) auto
    with f have p: "?p' = ?t" by (simp add: lerp_one)
    have "distanceSquared ?t (lookAtPosition gs ufoPosition) = (7 * zoomLevel)\<^sup>2"
      unfolding targetPosition_def by (rule on_sphere)
    with f p show ?thesis by simp
  qed
  have ease: "lerpFactor gs = 0.1 \<and> ?p' = lerp (camPosition cam) ?t 0.1
      \<and> ?p' = \<lparr>vx = vx (camPosition cam) + (vx ?t - vx (camPosition cam)) * 0.1,
               vy = vy (camPosition cam) + (vy ?t - vy (camPosition cam)) * 0.1,
               vz = vz (camPosition cam) + (vz ?t - vz (camPosition cam)) * 0.1\<rparr>
      \<and> distanceSquared ?p' ?t = 0.81 * distanceSquared (camPosition cam) ?t
      \<and> (camPosition cam \<noteq> ?t \<longrightarrow> ?p' \<noteq> ?t \<and> ?p' \<noteq> camPosition cam)"
    if "gs = Playing \<or> gs = Paused \<or> gs = Ready"
  proof -
    from that have f: "lerpFactor gs = 0.1" by (auto simp: lerpFactor_def)
    from that have "?p' = lerp (camPosition cam) ?t (lerpFactor gs)"
      by (intro cameraFrame_position) auto
    then have p: "?p' = lerp (camPosition cam) ?t 0.1" unfolding f .
    then have q: "?p' = \<lparr>vx = vx (camPosition cam) + (vx ?t - vx (camPosition cam)) * 0.1,
               vy = vy (camPosition cam) + (vy ?t - vy (camPosition cam)) * 0.1,
               vz = vz (camPosition cam) + (vz ?t - vz (camPosition cam)) * 0.1\<rparr>"
      unfolding lerp_def .
    have d: "distanceSquared (lerp (camPosition cam) ?t 0.1) ?t
        = 0.81 * distanceSquared (camPosition cam) ?t"
      using lerp_distance [of "camPosition cam" ?t "0.1"] by (simp add: power2_eq_square)
    have r: "distanceSquared ?p' ?t = 0.81 * distanceSquared (camPosition cam) ?t"
      unfolding p by (rule d)
    have n: "camPosition cam \<noteq> ?t \<longrightarrow> ?p' \<noteq> ?t \<and> ?p' \<noteq> camPosition cam"
      unfolding p using lerp_partial [of "camPosition cam" ?t] by blast
    from f p q r n show ?thesis by blast
  qed
  from factors atStart paused target snap ease show ?thesis by blast
qed

theorem camera_snaps_or_eases_witness:
  "camPosition (cameraFrame CameraSetup 2 \<lparr>azimuth = pi / 2, polar = pi / 6\<rparr>
        \<lparr>vx = 0, vy = 5, vz = 0\<rparr>
        \<lparr>camPosition = \<lparr>vx = 1, vy = 1, vz = 1\<rparr>, lookAtTarget = None, fov = 75\<rparr>)
     = \<lparr>vx = 7, vy = 7 * sqrt 3 + 2, vz = 0\<rparr>
   \<and> camPosition (cameraFrame PausedCameraSetup 0.5 \<lparr>azimuth = 0, polar = pi / 2\<rparr>
        \<lparr>vx = 0, vy = 5, vz = 0\<rparr>
        \<lparr>camPosition = \<lparr>vx = 1, vy = 1, vz = 1\<rparr>, lookAtTarget = None, fov = 75\<rparr>)
     = \<lparr>vx = 0, vy = 5, vz = 3.5\<rparr>
   \<and> camPosition (cameraFrame Playing 1 \<lparr>azimuth = pi / 2, polar = pi / 2\<rparr>
        \<lparr>vx = 0, vy = 4, vz = 0\<rparr>
        \<lparr>camPosition = \<lparr>vx = 17, vy = 4, vz = 0\<rparr>, lookAtTarget = None, fov = 75\<rparr>)
     = \<lparr>vx = 16, vy = 4, vz = 0\<rparr>
   \<and> camPosition (cameraFrame Playing 1 \<lparr>azimuth = pi / 2, polar = pi / 2\<rparr>
        \<lparr>vx = 0, vy = 4, vz = 0\<rparr>
        \<lparr>camPosition = \<lparr>vx = 17, vy = 4, vz = 0\<rparr>, lookAtTarget = None, fov = 75\<rparr>)
     \<noteq> \<lparr>vx = 7, vy = 4, vz = 0\<rparr>"
proof -
  let ?u = "\<lparr>vx = 0, vy = 5, vz = 0\<rparr>"
  let ?cam = "\<lparr>camPosition = \<lparr>vx = 1, vy = 1, vz = 1\<rparr>, lookAtTarget = None, fov = 75\<rparr>"
  let ?far = "\<lparr>camPosition = \<lparr>vx = 17, vy = 4, vz = 0\<rparr>, lookAtTarget = None, fov = 75\<rparr>"
  let ?r = "\<lparr>azimuth = pi / 2, polar = pi / 2\<rparr>"
  have a: "camPosition (cameraFrame CameraSetup 2 \<lparr>azimuth = pi / 2, polar = pi / 6\<rparr> ?u ?cam)
      = \<lparr>vx = 7, vy = 7 * sqrt 3 + 2, vz = 0\<rparr>"
    using camera_snaps_or_eases [of 2 "\<lparr>azimuth = pi / 2, polar = pi / 6\<rparr>" ?u ?cam
        CameraSetup]
    by (simp add: sin_30 cos_30)
  have b: "camPosition (cameraFrame PausedCameraSetup 0.5 \<lparr>azimuth = 0, polar = pi / 2\<rparr> ?u ?cam)
      = \<lparr>vx = 0, vy = 5, vz = 3.5\<rparr>"
    using camera_snaps_or_eases [of "0.5" "\<lparr>azimuth = 0, polar = pi / 2\<rparr>" ?u ?cam
        PausedCameraSetup]
    by simp
  have t: "targetPosition Playing 1 ?r \<lparr>vx = 0, vy = 4, vz = 0\<rparr> = \<lparr>vx = 7, vy = 4, vz = 0\<rparr>"
    using camera_snaps_or_eases [of 1 ?r "\<lparr>vx = 0, vy = 4, vz = 0\<rparr>" ?far Playing]
    by simp
  have g: "camPosition ?far \<noteq> targetPosition Playing 1 ?r \<lparr>vx = 0, vy = 4, vz = 0\<rparr>"
    unfolding t by simp
  have c0: "camPosition (cameraFrame Playing 1 ?r \<lparr>vx = 0, vy = 4, vz = 0\<rparr> ?far)
      = lerp (camPosition ?far) (targetPosition Playing 1 ?r \<lparr>vx = 0, vy = 4, vz = 0\<rparr>) 0.1"
    using camera_snaps_or_eases [of 1 ?r "\<lparr>vx = 0, vy = 4, vz = 0\<rparr>" ?far Playing]
    by blast
  have c: "camPosition (cameraFrame Playing 1 ?r \<lparr>vx = 0, vy = 4, vz = 0\<rparr> ?far)
      = \<lparr>vx = 16, vy = 4, vz = 0\<rparr>"
    unfolding c0 t by (simp add: lerp_def)
  have d: "camPosition (cameraFrame Playing 1 ?r \<lparr>vx = 0, vy = 4, vz = 0\<rparr> ?far)
      \<noteq> \<lparr>vx = 7, vy = 4, vz = 0\<rparr>"
    using g camera_snaps_or_eases [of 1 ?r "\<lparr>vx = 0, vy = 4, vz = 0\<rparr>" ?far Playing]
    unfolding t by blast
  from a b c d show ?thesis by blast
qed

end
